theory Spec2Isabelle
  imports Main "HOL-Library.Word"
begin

section \<open>Values of a parsed JSON document\<close>

text \<open>
  \<^verbatim>\<open>json.load\<close> builds Python values: \<^verbatim>\<open>None\<close>, \<^verbatim>\<open>bool\<close>, \<^verbatim>\<open>int\<close> (unbounded),
  \<^verbatim>\<open>float\<close> (an IEEE double, kept here as its 64 bits), \<^verbatim>\<open>str\<close>, \<^verbatim>\<open>list\<close> and
  \<^verbatim>\<open>dict\<close>. A Python dict keeps its keys in insertion order, so it is an association
  list; the decoder builds a fresh tree, so no two elements of the document share an
  object and in-place mutation of one element is a functional update of that element.
\<close>

datatype json =
    JNull
  | JBool bool
  | JInt int
  | JFloat "64 word"
  | JStr string
  | JList "json list"
  | JDict "(string \<times> json) list"

text \<open>
  The exceptions the program can meet, each with the text \<^verbatim>\<open>str(e)\<close> gives. All of them
  are subclasses of \<^verbatim>\<open>Exception\<close>. \<open>OSError\<close> stands for what \<^verbatim>\<open>open\<close> raises
  (\<^verbatim>\<open>FileNotFoundError\<close>, \<^verbatim>\<open>PermissionError\<close>, \<^verbatim>\<open>IsADirectoryError\<close>), \<open>DecodeError\<close>
  for what reading and parsing raise (\<^verbatim>\<open>UnicodeDecodeError\<close>, \<^verbatim>\<open>JSONDecodeError\<close>,
  \<^verbatim>\<open>RecursionError\<close>), \<open>EncodeError\<close> for what serialising and writing raise.
\<close>

datatype error =
    OSError string
  | DecodeError string
  | ValueError string
  | TypeError string
  | EncodeError string

fun str :: "error \<Rightarrow> string" where
  "str (OSError m) = m"
| "str (DecodeError m) = m"
| "str (ValueError m) = m"
| "str (TypeError m) = m"
| "str (EncodeError m) = m"

section \<open>Item assignment\<close>

text \<open>
  \<^verbatim>\<open>d[k] = v\<close> on a dict: an existing key keeps its position and takes the new value, a new
  key is appended.
\<close>

fun dict_setitem :: "(string \<times> json) list \<Rightarrow> string \<Rightarrow> json \<Rightarrow> (string \<times> json) list" where
  "dict_setitem [] k v = [(k, v)]"
| "dict_setitem ((k', v') # d) k v =
     (if k' = k then (k, v) # d else (k', v') # dict_setitem d k v)"

definition apostrophe :: char where
  "apostrophe = CHR 0x27"

definition no_item_assignment :: "string \<Rightarrow> error" where
  "no_item_assignment tyname =
     TypeError ([apostrophe] @ tyname @ [apostrophe] @ '' object does not support item assignment'')"

text \<open>
  \<^verbatim>\<open>picto[k] = v\<close> with a string key \<open>k\<close>, for each kind of value \<open>picto\<close> can be. Only a
  dict accepts it; a list wants an integer index; the other types have no item assignment.
\<close>

fun setitem :: "json \<Rightarrow> string \<Rightarrow> json \<Rightarrow> error + json" where
  "setitem (JDict d) k v = Inr (JDict (dict_setitem d k v))"
| "setitem (JList xs) k v = Inl (TypeError ''list indices must be integers or slices, not str'')"
| "setitem JNull k v = Inl (no_item_assignment ''NoneType'')"
| "setitem (JBool b) k v = Inl (no_item_assignment ''bool'')"
| "setitem (JInt n) k v = Inl (no_item_assignment ''int'')"
| "setitem (JFloat x) k v = Inl (no_item_assignment ''float'')"
| "setitem (JStr s) k v = Inl (no_item_assignment ''str'')"

text \<open>Reading a key of a dict (the first binding of the key), and a field of an element.\<close>

definition dict_get :: "(string \<times> json) list \<Rightarrow> string \<Rightarrow> json option" where
  "dict_get d k = map_of d k"

fun get_field :: "json \<Rightarrow> string \<Rightarrow> json option" where
  "get_field (JDict d) k = dict_get d k"
| "get_field _ k = None"



fun is_dict :: "json \<Rightarrow> bool" where
  "is_dict (JDict d) = True"
| "is_dict _ = False"

section \<open>The annotation loop\<close>

text \<open>
  \<^verbatim>\<open>for i, picto in enumerate(pictos): picto['id'] = i + 1\<close>, over the pairs that
  \<^verbatim>\<open>enumerate\<close> yields. The first element that refuses the assignment raises, and the
  loop stops there.
\<close>

fun assign_ids :: "(nat \<times> json) list \<Rightarrow> error + json list" where
  "assign_ids [] = Inr []"
| "assign_ids ((i, picto) # rest) =
     (case setitem picto ''id'' (JInt (int i + 1)) of
        Inl e \<Rightarrow> Inl e
      | Inr picto' \<Rightarrow>
          (case assign_ids rest of
             Inl e \<Rightarrow> Inl e
           | Inr rest' \<Rightarrow> Inr (picto' # rest')))"

definition annotate :: "json list \<Rightarrow> error + json list" where
  "annotate pictos = assign_ids (enumerate 0 pictos)"

section \<open>Files and the JSON library\<close>

text \<open>
  The file system: the text of each existing file, and the paths on which \<^verbatim>\<open>open\<close> fails
  for reading or for writing (with the message of the \<^verbatim>\<open>OSError\<close>). A path that exists
  but cannot be opened (a directory, a file without permission) has an entry in \<open>files\<close>
  and one in \<open>read_error\<close>.
\<close>

record world =
  files :: "string \<rightharpoonup> string"
  read_error :: "string \<rightharpoonup> string"
  write_error :: "string \<rightharpoonup> string"

definition os_path_exists :: "world \<Rightarrow> string \<Rightarrow> bool" where
  "os_path_exists w p = (files w p \<noteq> None)"

text \<open>\<^verbatim>\<open>open(p, 'r', encoding='utf-8')\<close>, giving the text the file holds.\<close>

definition open_r :: "world \<Rightarrow> string \<Rightarrow> error + string" where
  "open_r w p =
     (case read_error w p of
        Some m \<Rightarrow> Inl (OSError m)
      | None \<Rightarrow>
          (case files w p of
             None \<Rightarrow> Inl (OSError (''[Errno 2] No such file or directory: '' @ [apostrophe] @ p @ [apostrophe]))
           | Some text \<Rightarrow> Inr text))"

text \<open>\<^verbatim>\<open>open(p, 'w', encoding='utf-8')\<close>: creates the file or empties it.\<close>

definition open_w :: "world \<Rightarrow> string \<Rightarrow> error + world" where
  "open_w w p =
     (case write_error w p of
        Some m \<Rightarrow> Inl (OSError m)
      | None \<Rightarrow> Inr (w\<lparr>files := (files w)(p \<mapsto> [])\<rparr>))"

text \<open>
  The \<^verbatim>\<open>json\<close> module is not part of this program, so it is a parameter: \<open>json_load\<close>
  decodes and parses the text of a file, \<open>json_dump\<close> gives the text that
  \<^verbatim>\<open>json.dump(v, f, indent=2, ensure_ascii=False)\<close> writes and the exception that stopped
  it, if any (the text is then what was written before the exception).
\<close>

record json_lib =
  json_load :: "string \<Rightarrow> error + json"
  json_dump :: "json \<Rightarrow> string \<times> error option"

section \<open>The program\<close>

definition shape_error :: error where
  "shape_error = ValueError ''The JSON file does not contain a list at the root level''"

text \<open>
  \<^verbatim>\<open>add_ids_to_pictos(input_file, output_file=None)\<close>: the world after the call, and the
  exception raised or the count returned.
\<close>

definition add_ids_to_pictos ::
  "json_lib \<Rightarrow> world \<Rightarrow> string \<Rightarrow> string option \<Rightarrow> world \<times> (error + nat)" where
  "add_ids_to_pictos lib w input_file output_file_opt =
     (let output_file = (case output_file_opt of None \<Rightarrow> input_file | Some p \<Rightarrow> p) in
      case open_r w input_file of
        Inl e \<Rightarrow> (w, Inl e)
      | Inr text \<Rightarrow>
          (case json_load lib text of
             Inl e \<Rightarrow> (w, Inl e)
           | Inr (JList pictos) \<Rightarrow>
               (case annotate pictos of
                  Inl e \<Rightarrow> (w, Inl e)
                | Inr pictos' \<Rightarrow>
                    (case open_w w output_file of
                       Inl e \<Rightarrow> (w, Inl e)
                     | Inr w1 \<Rightarrow>
                         (case json_dump lib (JList pictos') of
                            (out, Some e) \<Rightarrow> (w1\<lparr>files := (files w1)(output_file \<mapsto> out)\<rparr>, Inl e)
                          | (out, None) \<Rightarrow>
                              (w1\<lparr>files := (files w1)(output_file \<mapsto> out)\<rparr>,
                               Inr (length pictos')))))
           | Inr _ \<Rightarrow> (w, Inl shape_error)))"

text \<open>The path the call writes to: \<^verbatim>\<open>output_file\<close> after its default is resolved.\<close>

definition output_path :: "string \<Rightarrow> string option \<Rightarrow> string" where
  "output_path input_file output_file_opt =
     (case output_file_opt of None \<Rightarrow> input_file | Some p \<Rightarrow> p)"

text \<open>Decimal text of a count, as an f-string renders an \<^verbatim>\<open>int\<close>.\<close>

fun string_of_nat :: "nat \<Rightarrow> string" where
  "string_of_nat n =
     (if n < 10 then [''0123456789'' ! n]
      else string_of_nat (n div 10) @ [''0123456789'' ! (n mod 10)])"

declare string_of_nat.simps [simp del]

definition quoted :: "string \<Rightarrow> string" where
  "quoted p = [apostrophe] @ p @ [apostrophe]"

text \<open>
  The driver, with the annotator and the path as parameters: the lines it prints and the
  exit status it returns, next to the world it leaves. \<open>main\<close> is the driver of the
  source, on its fixed path.
\<close>

definition main_with ::
  "(world \<Rightarrow> string \<Rightarrow> world \<times> (error + nat)) \<Rightarrow> string \<Rightarrow> world \<Rightarrow> world \<times> string list \<times> int" where
  "main_with annotator input_file w =
     (if \<not> os_path_exists w input_file then
        (w, [''Error: Input file '' @ quoted input_file @ '' not found.''], 1)
      else
        (case annotator w input_file of
           (w', Inr count) \<Rightarrow>
             (w', [''Successfully added IDs to '' @ string_of_nat count @ '' pictos in ''
                     @ quoted input_file @ ''.''], 0)
         | (w', Inl e) \<Rightarrow> (w', [''Error: '' @ str e], 1)))"

definition default_input_file :: string where
  "default_input_file = ''src/assets/pictos_list.json''"

definition main :: "json_lib \<Rightarrow> world \<Rightarrow> world \<times> string list \<times> int" where
  "main lib w = main_with (\<lambda>w p. add_ids_to_pictos lib w p None) default_input_file w"

section \<open>Example documents, files and libraries\<close>

text \<open>
  Concrete inputs for the instances below. A \<open>table_lib\<close> is a JSON library that knows
  the finitely many documents of a table of (text, value) pairs: it parses exactly the texts
  of the table and serialises exactly its values.
\<close>

definition table_lib :: "(string \<times> json) list \<Rightarrow> json_lib" where
  "table_lib tab =
     \<lparr>json_load = (\<lambda>text. case map_of tab text of
                       Some v \<Rightarrow> Inr v
                     | None \<Rightarrow> Inl (DecodeError ''Expecting value: line 1 column 1 (char 0)'')),
      json_dump = (\<lambda>v. case map_of (map (\<lambda>(t, v). (v, t)) tab) v of
                       Some t \<Rightarrow> (t, None)
                     | None \<Rightarrow> ([], Some (EncodeError ''Object is not JSON serializable'')))\<rparr>"

fun join_lines :: "string list \<Rightarrow> string" where
  "join_lines [] = []"
| "join_lines [l] = l"
| "join_lines (l # ls) = l @ [CHR 0x0A] @ join_lines ls"

definition world_with :: "string \<Rightarrow> world" where
  "world_with text =
     \<lparr>files = [default_input_file \<mapsto> text], read_error = Map.empty, write_error = Map.empty\<rparr>"

definition empty_world :: world where
  "empty_world = \<lparr>files = Map.empty, read_error = Map.empty, write_error = Map.empty\<rparr>"

definition cat_dog :: "json list" where
  "cat_dog = [JDict [(''name'', JStr ''cat'')], JDict [(''name'', JStr ''dog'')]]"

definition cat_dog_ids :: "json list" where
  "cat_dog_ids = [JDict [(''name'', JStr ''cat''), (''id'', JInt 1)],
                  JDict [(''name'', JStr ''dog''), (''id'', JInt 2)]]"

definition cat_dog_text :: string where
  \<open>cat_dog_text = ''[{"name": "cat"}, {"name": "dog"}]''\<close>

definition cat_dog_ids_text :: string where
  \<open>cat_dog_ids_text = join_lines
     [''['', ''  {'', ''    "name": "cat",'', ''    "id": 1'', ''  },'',
      ''  {'', ''    "name": "dog",'', ''    "id": 2'', ''  }'', '']'']\<close>

text \<open>Two elements that both come with \<open>id = 99\<close>, the key first in one and last in the other.\<close>

definition stale_pair :: "json list" where
  "stale_pair = [JDict [(''id'', JInt 99), (''name'', JStr ''cat'')],
                 JDict [(''name'', JStr ''dog''), (''id'', JInt 99)]]"

definition stale_pair_ids :: "json list" where
  "stale_pair_ids = [JDict [(''id'', JInt 1), (''name'', JStr ''cat'')],
                     JDict [(''name'', JStr ''dog''), (''id'', JInt 2)]]"

definition stale_pair_text :: string where
  \<open>stale_pair_text = ''[{"id": 99, "name": "cat"}, {"name": "dog", "id": 99}]''\<close>

definition stale_pair_ids_text :: string where
  \<open>stale_pair_ids_text = join_lines
     [''['', ''  {'', ''    "id": 1,'', ''    "name": "cat"'', ''  },'',
      ''  {'', ''    "name": "dog",'', ''    "id": 2'', ''  }'', '']'']\<close>

definition stale_lib :: json_lib where
  "stale_lib = table_lib [(stale_pair_text, JList stale_pair),
                          (stale_pair_ids_text, JList stale_pair_ids)]"

definition cat_object :: json where
  "cat_object = JDict [(''name'', JStr ''cat'')]"

definition cat_object_text :: string where
  \<open>cat_object_text = ''{"name": "cat"}''\<close>

definition cat_seven :: "json list" where
  "cat_seven = [JDict [(''name'', JStr ''cat'')], JInt 7]"

definition cat_seven_text :: string where
  \<open>cat_seven_text = ''[{"name": "cat"}, 7]''\<close>

definition empty_text :: string where
  "empty_text = ''[]''"

definition cat_dog_lib :: json_lib where
  "cat_dog_lib = table_lib [(cat_dog_text, JList cat_dog), (cat_dog_ids_text, JList cat_dog_ids),
                            (empty_text, JList [])]"

definition cat_object_lib :: json_lib where
  "cat_object_lib = table_lib [(cat_object_text, cat_object)]"

definition cat_seven_lib :: json_lib where
  "cat_seven_lib = table_lib [(cat_seven_text, JList cat_seven)]"

text \<open>An annotator that ignores its input; the driver must not call it on a missing file.\<close>

definition constant_annotator :: "world \<Rightarrow> string \<Rightarrow> world \<times> (error + nat)" where
  "constant_annotator w p = (empty_world, Inr 5)"

definition garbled_text :: string where
  "garbled_text = ''not json''"

text \<open>A world whose default input file can be read but not opened for writing.\<close>

definition read_only_world :: world where
  "read_only_world =
     \<lparr>files = [default_input_file \<mapsto> cat_dog_text], read_error = Map.empty,
      write_error = [default_input_file \<mapsto> ''[Errno 13] Permission denied: '' @ quoted default_input_file]\<rparr>"

text \<open>A second world: the same document under another name, written to a third file.\<close>

definition other_world :: world where
  "other_world =
     \<lparr>files = [''a.json'' \<mapsto> cat_dog_text, ''b.json'' \<mapsto> garbled_text],
      read_error = Map.empty, write_error = Map.empty\<rparr>"

section \<open>Item assignment on a dict\<close>

lemma dict_get_setitem: "dict_get (dict_setitem d k v) k = Some v"
  by (induction d) (auto simp: dict_get_def)


lemma dict_setitem_twice: "dict_setitem (dict_setitem d k v) k v' = dict_setitem d k v'"
  by (induction d) auto

lemma setitem_TypeError: "\<not> is_dict x \<Longrightarrow> \<exists>m. setitem x k v = Inl (TypeError m)"
  by (cases x) (auto simp: no_item_assignment_def)

lemma is_dictE: "is_dict x \<Longrightarrow> \<exists>d. x = JDict d"
  by (cases x) auto

section \<open>The loop, element by element\<close>

text \<open>
  On a list of dicts the loop, started at index \<open>n\<close>, ends normally with a list of the
  same length whose element \<open>i\<close> is element \<open>i\<close> of the input after
  \<^verbatim>\<open>picto['id'] = n + i + 1\<close>.
\<close>

lemma assign_ids_dicts:
  "\<forall>x\<in>set pictos. is_dict x \<Longrightarrow>
   \<exists>out. assign_ids (enumerate n pictos) = Inr out \<and> length out = length pictos \<and>
     (\<forall>i<length pictos. \<exists>d. pictos ! i = JDict d \<and>
        out ! i = JDict (dict_setitem d ''id'' (JInt (int (n + i) + 1))))"
proof (induction pictos arbitrary: n)
  case Nil
  then show ?case by simp
next
  case (Cons x xs)
  from Cons.prems obtain d where x: "x = JDict d"
    using is_dictE by auto
  from Cons.prems have "\<forall>y\<in>set xs. is_dict y" by simp
  from Cons.IH [OF this, of "Suc n"] obtain out where
    out: "assign_ids (enumerate (Suc n) xs) = Inr out" "length out = length xs"
    and nth: "\<forall>i<length xs. \<exists>d. xs ! i = JDict d \<and>
        out ! i = JDict (dict_setitem d ''id'' (JInt (int (Suc n + i) + 1)))"
    by blast
  let ?y = "JDict (dict_setitem d ''id'' (JInt (int n + 1)))"
  have "assign_ids (enumerate n (x # xs)) = Inr (?y # out)"
    using x out by simp
  moreover have "\<forall>i<length (x # xs). \<exists>d. (x # xs) ! i = JDict d \<and>
        (?y # out) ! i = JDict (dict_setitem d ''id'' (JInt (int (n + i) + 1)))"
  proof (intro allI impI)
    fix i assume "i < length (x # xs)"
    then show "\<exists>d. (x # xs) ! i = JDict d \<and>
        (?y # out) ! i = JDict (dict_setitem d ''id'' (JInt (int (n + i) + 1)))"
      using x nth by (cases i) auto
  qed
  ultimately show ?case using out by simp
qed

text \<open>An element that is not a dict stops the loop with the \<open>TypeError\<close> of its assignment.\<close>

lemma assign_ids_non_dict:
  "\<exists>x\<in>set pictos. \<not> is_dict x \<Longrightarrow> \<exists>m. assign_ids (enumerate n pictos) = Inl (TypeError m)"
proof (induction pictos arbitrary: n)
  case Nil
  then show ?case by simp
next
  case (Cons x xs)
  show ?case
  proof (cases "is_dict x")
    case False
    from setitem_TypeError [OF this] obtain m where
      "setitem x ''id'' (JInt (int n + 1)) = Inl (TypeError m)" by blast
    then show ?thesis by simp
  next
    case True
    then obtain d where x: "x = JDict d"
      using is_dictE by auto
    from True Cons.prems have "\<exists>y\<in>set xs. \<not> is_dict y" by auto
    from Cons.IH [OF this, of "Suc n"] obtain m where
      "assign_ids (enumerate (Suc n) xs) = Inl (TypeError m)" by blast
    then show ?thesis using x by simp
  qed
qed

lemma annotate_dicts:
  assumes "\<forall>x\<in>set pictos. is_dict x"
  shows "\<exists>out. annotate pictos = Inr out \<and> length out = length pictos \<and>
     (\<forall>i<length pictos. \<exists>d. pictos ! i = JDict d \<and>
        out ! i = JDict (dict_setitem d ''id'' (JInt (int i + 1))))"
  using assign_ids_dicts [OF assms, of 0] by (simp add: annotate_def)


lemma assign_ids_length:
  "assign_ids (enumerate n pictos) = Inr out \<Longrightarrow> length out = length pictos"
proof (induction pictos arbitrary: n out)
  case Nil
  then show ?case by simp
next
  case (Cons x xs)
  then show ?case
    by (auto split: sum.splits)
qed

lemma annotate_length: "annotate pictos = Inr out \<Longrightarrow> length out = length pictos"
  by (simp add: annotate_def assign_ids_length)

lemma annotate_Nil: "annotate [] = Inr []"
  by (simp add: annotate_def)

lemma annotate_non_dict:
  "\<exists>x\<in>set pictos. \<not> is_dict x \<Longrightarrow> \<exists>m. annotate pictos = Inl (TypeError m)"
  by (simp add: annotate_def assign_ids_non_dict)

section \<open>Identifiers and the other fields\<close>

text \<open>
  On a list of dicts the loop ends normally, and element \<open>i\<close> (counted from zero) of its
  result has \<open>id\<close> equal to \<open>i + 1\<close>.
\<close>

lemma annotate_ids:
  assumes "\<forall>x\<in>set pictos. is_dict x"
  shows "\<exists>out. annotate pictos = Inr out \<and> length out = length pictos \<and>
           (\<forall>i<length pictos. get_field (out ! i) ''id'' = Some (JInt (int i + 1)))"
proof -
  from annotate_dicts [OF assms] obtain out where
    out: "annotate pictos = Inr out" "length out = length pictos"
    and nth: "\<forall>i<length pictos. \<exists>d. pictos ! i = JDict d \<and>
        out ! i = JDict (dict_setitem d ''id'' (JInt (int i + 1)))"
    by blast
  have "\<forall>i<length pictos. get_field (out ! i) ''id'' = Some (JInt (int i + 1))"
  proof (intro allI impI)
    fix i assume "i < length pictos"
    with nth obtain d where "out ! i = JDict (dict_setitem d ''id'' (JInt (int i + 1)))"
      by blast
    then show "get_field (out ! i) ''id'' = Some (JInt (int i + 1))"
      by (simp add: dict_get_setitem)
  qed
  with out show ?thesis by blast
qed



section \<open>The whole call\<close>

text \<open>What the call does once the file is read and its root is a list.\<close>

lemma add_ids_to_pictos_list:
  assumes "open_r w p = Inr text" "json_load lib text = Inr (JList pictos)"
  shows "add_ids_to_pictos lib w p oo =
     (case annotate pictos of
        Inl e \<Rightarrow> (w, Inl e)
      | Inr pictos' \<Rightarrow>
          (case open_w w (output_path p oo) of
             Inl e \<Rightarrow> (w, Inl e)
           | Inr w1 \<Rightarrow>
               (w1\<lparr>files := (files w1)(output_path p oo \<mapsto> fst (json_dump lib (JList pictos')))\<rparr>,
                case snd (json_dump lib (JList pictos')) of
                  Some e \<Rightarrow> Inl e
                | None \<Rightarrow> Inr (length pictos'))))"
  using assms
  by (auto simp: add_ids_to_pictos_def output_path_def Let_def
      split: sum.splits option.splits prod.splits)

text \<open>A call that returns went through every step.\<close>

lemma add_ids_to_pictos_Inr:
  assumes "add_ids_to_pictos lib w p oo = (w', Inr n)"
  shows "\<exists>text pictos pictos'. open_r w p = Inr text \<and> json_load lib text = Inr (JList pictos) \<and>
           annotate pictos = Inr pictos' \<and> write_error w (output_path p oo) = None \<and>
           snd (json_dump lib (JList pictos')) = None \<and> n = length pictos' \<and>
           w' = w\<lparr>files := (files w)(output_path p oo \<mapsto> fst (json_dump lib (JList pictos')))\<rparr>"
  using assms
  by (auto simp: add_ids_to_pictos_def output_path_def open_w_def Let_def
      split: sum.splits option.splits prod.splits json.splits)

text \<open>
  C1. When the input file is read, its root is a list whose elements are all dicts, and
  the destination can be opened, the call hands to the serialiser a list of the same
  length whose element \<open>i\<close> (counted from zero) has \<open>id\<close> equal to \<open>i + 1\<close>, whatever
  \<open>id\<close> the element had before, or none; the destination holds the text of that list,
  and the call returns the length of the input unless the serialiser raises.
\<close>

theorem ids_follow_positions:
  assumes "open_r w p = Inr text" "json_load lib text = Inr (JList pictos)"
    "\<forall>x\<in>set pictos. is_dict x" "write_error w (output_path p oo) = None"
  shows "\<exists>out. length out = length pictos \<and>
           (\<forall>i<length pictos. get_field (out ! i) ''id'' = Some (JInt (int i + 1))) \<and>
           add_ids_to_pictos lib w p oo =
             (w\<lparr>files := (files w)(output_path p oo \<mapsto> fst (json_dump lib (JList out)))\<rparr>,
              case snd (json_dump lib (JList out)) of
                Some e \<Rightarrow> Inl e
              | None \<Rightarrow> Inr (length pictos))"
proof -
  from annotate_ids [OF assms(3)] obtain out where
    out: "annotate pictos = Inr out" and len: "length out = length pictos"
    and ids: "\<forall>i<length pictos. get_field (out ! i) ''id'' = Some (JInt (int i + 1))"
    by blast
  have "add_ids_to_pictos lib w p oo =
      (w\<lparr>files := (files w)(output_path p oo \<mapsto> fst (json_dump lib (JList out)))\<rparr>,
       case snd (json_dump lib (JList out)) of
         Some e \<Rightarrow> Inl e
       | None \<Rightarrow> Inr (length pictos))"
    using out len assms(4)
    by (simp add: add_ids_to_pictos_list [OF assms(1,2)] open_w_def split: option.splits)
  with len ids show ?thesis by blast
qed

text \<open>
  The instance: two elements that both come with \<open>id = 99\<close> leave with \<open>id = 1\<close> and
  \<open>id = 2\<close>, in the file the run writes.
\<close>

lemma read_stale_pair: "open_r (world_with stale_pair_text) default_input_file = Inr stale_pair_text"
  by (simp add: open_r_def world_with_def)

lemma load_stale_pair: "json_load stale_lib stale_pair_text = Inr (JList stale_pair)"
  by (simp add: stale_lib_def table_lib_def)

lemma load_stale_pair_ids: "json_load stale_lib stale_pair_ids_text = Inr (JList stale_pair_ids)"
  by (simp add: stale_lib_def table_lib_def stale_pair_text_def stale_pair_ids_text_def)

lemma run_stale_pair:
  "add_ids_to_pictos stale_lib (world_with stale_pair_text) default_input_file None =
     (world_with stale_pair_ids_text, Inr 2)"
  by (subst add_ids_to_pictos_list [OF read_stale_pair load_stale_pair])
    (simp add: annotate_def stale_pair_def stale_pair_ids_def stale_lib_def table_lib_def
      open_w_def output_path_def world_with_def)

theorem ids_follow_positions_witness:
  "open_r (world_with stale_pair_text) default_input_file = Inr stale_pair_text \<and>
   json_load stale_lib stale_pair_text = Inr (JList stale_pair) \<and>
   list_all is_dict stale_pair \<and>
   write_error (world_with stale_pair_text) (output_path default_input_file None) = None \<and>
   get_field (stale_pair ! 0) ''id'' = Some (JInt 99) \<and>
   get_field (stale_pair ! 1) ''id'' = Some (JInt 99) \<and>
   (\<exists>out. length out = 2 \<and>
      get_field (out ! 0) ''id'' = Some (JInt 1) \<and>
      get_field (out ! 1) ''id'' = Some (JInt 2) \<and>
      files (fst (add_ids_to_pictos stale_lib (world_with stale_pair_text) default_input_file None))
        default_input_file = Some (fst (json_dump stale_lib (JList out)))) \<and>
   add_ids_to_pictos stale_lib (world_with stale_pair_text) default_input_file None =
     (world_with stale_pair_ids_text, Inr 2) \<and>
   json_load stale_lib stale_pair_ids_text = Inr (JList stale_pair_ids) \<and>
   get_field (stale_pair_ids ! 0) ''id'' = Some (JInt 1) \<and>
   get_field (stale_pair_ids ! 1) ''id'' = Some (JInt 2)"
proof -
  have dicts: "\<forall>x\<in>set stale_pair. is_dict x"
    by (simp add: stale_pair_def)
  have wr: "write_error (world_with stale_pair_text) (output_path default_input_file None) = None"
    by (simp add: world_with_def)
  from ids_follow_positions [OF read_stale_pair load_stale_pair dicts wr] obtain out where
    len: "length out = length stale_pair"
    and ids: "\<forall>i<length stale_pair. get_field (out ! i) ''id'' = Some (JInt (int i + 1))"
    and run: "add_ids_to_pictos stale_lib (world_with stale_pair_text) default_input_file None =
      ((world_with stale_pair_text)\<lparr>files := (files (world_with stale_pair_text))
          (output_path default_input_file None \<mapsto> fst (json_dump stale_lib (JList out)))\<rparr>,
       case snd (json_dump stale_lib (JList out)) of
         Some e \<Rightarrow> Inl e
       | None \<Rightarrow> Inr (length stale_pair))"
    by blast
  have two: "length stale_pair = 2"
    by (simp add: stale_pair_def)
  from ids two have "get_field (out ! 0) ''id'' = Some (JInt (int 0 + 1))"
    "get_field (out ! 1) ''id'' = Some (JInt (int 1 + 1))"
    by simp_all
  then have i01: "get_field (out ! 0) ''id'' = Some (JInt 1)"
    "get_field (out ! 1) ''id'' = Some (JInt 2)"
    by simp_all
  have written: "files (fst (add_ids_to_pictos stale_lib (world_with stale_pair_text)
        default_input_file None)) default_input_file = Some (fst (json_dump stale_lib (JList out)))"
    by (simp add: run output_path_def)
  from len two i01 written have ex: "\<exists>out. length out = 2 \<and>
      get_field (out ! 0) ''id'' = Some (JInt 1) \<and>
      get_field (out ! 1) ''id'' = Some (JInt 2) \<and>
      files (fst (add_ids_to_pictos stale_lib (world_with stale_pair_text) default_input_file None))
        default_input_file = Some (fst (json_dump stale_lib (JList out)))"
    by auto
  have before: "get_field (stale_pair ! 0) ''id'' = Some (JInt 99)"
    "get_field (stale_pair ! 1) ''id'' = Some (JInt 99)"
    by (simp_all add: stale_pair_def dict_get_def)
  have after: "get_field (stale_pair_ids ! 0) ''id'' = Some (JInt 1)"
    "get_field (stale_pair_ids ! 1) ''id'' = Some (JInt 2)"
    by (simp_all add: stale_pair_ids_def dict_get_def)
  from dicts have "list_all is_dict stale_pair"
    by (simp add: list_all_iff)
  with read_stale_pair load_stale_pair wr before ex run_stale_pair load_stale_pair_ids after
  show ?thesis by (simp del: One_nat_def)
qed

text \<open>
  C3. A call that returns a count read a list from its input file, and the count is the
  length of that list; when the list is empty the count is 0 and the file written holds
  the serialisation of the empty list.
\<close>

theorem count_is_length:
  assumes "add_ids_to_pictos lib w p oo = (w', Inr n)"
  shows "\<exists>text pictos. open_r w p = Inr text \<and> json_load lib text = Inr (JList pictos) \<and>
           n = length pictos \<and>
           (pictos = [] \<longrightarrow> n = 0 \<and>
              files w' (output_path p oo) = Some (fst (json_dump lib (JList []))))"
proof -
  from add_ids_to_pictos_Inr [OF assms] obtain body pictos pictos' where
    r: "open_r w p = Inr body" "json_load lib body = Inr (JList pictos)"
    and a: "annotate pictos = Inr pictos'"
    and n: "n = length pictos'"
    and w': "w' = w\<lparr>files := (files w)(output_path p oo \<mapsto> fst (json_dump lib (JList pictos')))\<rparr>"
    by blast
  from a n have len: "n = length pictos" by (simp add: annotate_length)
  have "pictos = [] \<longrightarrow> n = 0 \<and>
      files w' (output_path p oo) = Some (fst (json_dump lib (JList [])))"
  proof
    assume e: "pictos = []"
    with a have "pictos' = []" by (simp add: annotate_Nil)
    with w' len e show "n = 0 \<and>
        files w' (output_path p oo) = Some (fst (json_dump lib (JList [])))"
      by simp
  qed
  with r len show ?thesis by blast
qed

text \<open>Two runs on the default path: the two-element example and the empty list.\<close>

lemma run_cat_dog: "add_ids_to_pictos cat_dog_lib (world_with cat_dog_text) default_input_file None =
    (world_with cat_dog_ids_text, Inr 2)"
  by (simp add: add_ids_to_pictos_def cat_dog_lib_def table_lib_def world_with_def open_r_def open_w_def
      cat_dog_text_def cat_dog_ids_text_def cat_dog_def cat_dog_ids_def annotate_def empty_text_def)

lemma run_empty: "add_ids_to_pictos cat_dog_lib (world_with empty_text) default_input_file None =
    (world_with empty_text, Inr 0)"
  by (simp add: add_ids_to_pictos_def cat_dog_lib_def table_lib_def world_with_def open_r_def open_w_def
      cat_dog_text_def cat_dog_ids_text_def cat_dog_def cat_dog_ids_def annotate_def empty_text_def)

lemma read_cat_dog: "open_r (world_with cat_dog_text) default_input_file = Inr cat_dog_text"
  by (simp add: open_r_def world_with_def)

lemma read_empty: "open_r (world_with empty_text) default_input_file = Inr empty_text"
  by (simp add: open_r_def world_with_def)

lemma load_cat_dog: "json_load cat_dog_lib cat_dog_text = Inr (JList cat_dog)"
  by (simp add: cat_dog_lib_def table_lib_def)

lemma load_empty: "json_load cat_dog_lib empty_text = Inr (JList [])"
  by (simp add: cat_dog_lib_def table_lib_def empty_text_def cat_dog_text_def cat_dog_ids_text_def)

theorem count_is_length_witness:
  "add_ids_to_pictos cat_dog_lib (world_with cat_dog_text) default_input_file None =
     (world_with cat_dog_ids_text, Inr 2) \<and>
   json_load cat_dog_lib cat_dog_text = Inr (JList cat_dog) \<and> 2 = length cat_dog \<and>
   add_ids_to_pictos cat_dog_lib (world_with empty_text) default_input_file None =
     (world_with empty_text, Inr 0) \<and>
   json_load cat_dog_lib empty_text = Inr (JList []) \<and>
   files (world_with empty_text) (output_path default_input_file None) =
     Some (fst (json_dump cat_dog_lib (JList [])))"
proof -
  from count_is_length [OF run_cat_dog] obtain body pictos where
    "open_r (world_with cat_dog_text) default_input_file = Inr body"
    "json_load cat_dog_lib body = Inr (JList pictos)" "2 = length pictos"
    by blast
  then have two: "2 = length cat_dog"
    by (simp add: read_cat_dog load_cat_dog)
  from count_is_length [OF run_empty] obtain body pictos where
    "open_r (world_with empty_text) default_input_file = Inr body"
    "json_load cat_dog_lib body = Inr (JList pictos)"
    "pictos = [] \<longrightarrow> files (world_with empty_text) (output_path default_input_file None) =
        Some (fst (json_dump cat_dog_lib (JList [])))"
    by blast
  then have "files (world_with empty_text) (output_path default_input_file None) =
        Some (fst (json_dump cat_dog_lib (JList [])))"
    by (simp add: read_empty load_empty)
  with two run_cat_dog run_empty load_cat_dog load_empty show ?thesis by simp
qed

text \<open>
  C4. When the input file is read and parsed and its root is not a list, the call raises
  a \<open>ValueError\<close> and the world it leaves is the world it found: nothing is opened for
  writing, so no file changes, the destination included.
\<close>

theorem non_list_root_rejected:
  assumes "open_r w p = Inr text" "json_load lib text = Inr doc" "\<forall>xs. doc \<noteq> JList xs"
  shows "\<exists>m. add_ids_to_pictos lib w p oo = (w, Inl (ValueError m))"
  using assms
  by (cases doc) (simp_all add: add_ids_to_pictos_def shape_error_def Let_def)

theorem non_list_root_rejected_witness:
  "open_r (world_with cat_object_text) default_input_file = Inr cat_object_text \<and>
   json_load cat_object_lib cat_object_text = Inr cat_object \<and>
   (\<forall>xs. cat_object \<noteq> JList xs) \<and>
   (\<exists>m. add_ids_to_pictos cat_object_lib (world_with cat_object_text) default_input_file None =
      (world_with cat_object_text, Inl (ValueError m)))"
proof -
  have r: "open_r (world_with cat_object_text) default_input_file = Inr cat_object_text"
    by (simp add: open_r_def world_with_def)
  have l: "json_load cat_object_lib cat_object_text = Inr cat_object"
    by (simp add: cat_object_lib_def table_lib_def)
  have s: "\<forall>xs. cat_object \<noteq> JList xs"
    by (simp add: cat_object_def)
  from non_list_root_rejected [OF r l s, of None] r l s show ?thesis by blast
qed

section \<open>The shape error and the driver\<close>

lemma open_r_exists: "open_r w p = Inr body \<Longrightarrow> os_path_exists w p"
  by (auto simp: open_r_def os_path_exists_def split: option.splits)

lemma add_ids_to_pictos_non_list:
  assumes "open_r w p = Inr body" "json_load lib body = Inr doc" "\<forall>xs. doc \<noteq> JList xs"
  shows "add_ids_to_pictos lib w p oo = (w, Inl shape_error)"
  using assms
  by (cases doc) (simp_all add: add_ids_to_pictos_def Let_def)

lemma read_cat_object: "open_r (world_with cat_object_text) default_input_file = Inr cat_object_text"
  by (simp add: open_r_def world_with_def)

lemma load_cat_object: "json_load cat_object_lib cat_object_text = Inr cat_object"
  by (simp add: cat_object_lib_def table_lib_def)

lemma cat_object_no_list: "\<forall>xs. cat_object \<noteq> JList xs"
  by (simp add: cat_object_def)

lemma run_cat_object:
  "add_ids_to_pictos cat_object_lib (world_with cat_object_text) default_input_file None =
     (world_with cat_object_text, Inl shape_error)"
  by (rule add_ids_to_pictos_non_list [OF read_cat_object load_cat_object cat_object_no_list])

lemma main_cat_object:
  "main cat_object_lib (world_with cat_object_text) =
     (world_with cat_object_text, [''Error: '' @ str shape_error], 1)"
  by (simp add: main_def main_with_def run_cat_object open_r_exists [OF read_cat_object])

text \<open>
  C5, as stated, fails: on a file holding the object \<^verbatim>\<open>{"name": "cat"}\<close> the error raised
  is not a \<open>ValueError\<close> with the text \<^verbatim>\<open>root value is not a list\<close>, and the line the
  driver prints is not that text, with or without the \<^verbatim>\<open>Error:\<close> prefix.
\<close>

theorem shape_message_counterexample:
  "json_load cat_object_lib cat_object_text = Inr cat_object \<and>
   snd (add_ids_to_pictos cat_object_lib (world_with cat_object_text) default_input_file None)
     \<noteq> Inl (ValueError ''root value is not a list'') \<and>
   fst (snd (main cat_object_lib (world_with cat_object_text)))
     \<noteq> [''Error: root value is not a list''] \<and>
   fst (snd (main cat_object_lib (world_with cat_object_text)))
     \<noteq> [''root value is not a list'']"
  by (simp add: load_cat_object run_cat_object main_cat_object shape_error_def)

text \<open>
  C5, amended. When the root of the parsed input is not a list, the error raised is the
  \<open>ValueError\<close> with the text \<^verbatim>\<open>The JSON file does not contain a list at the root level\<close>,
  and the driver prints that text after \<^verbatim>\<open>Error: \<close> and returns 1.
\<close>

theorem shape_error_message:
  assumes "open_r w p = Inr text" "json_load lib text = Inr doc" "\<forall>xs. doc \<noteq> JList xs"
  shows "add_ids_to_pictos lib w p oo =
           (w, Inl (ValueError ''The JSON file does not contain a list at the root level'')) \<and>
         main_with (\<lambda>w p. add_ids_to_pictos lib w p None) p w =
           (w, [''Error: The JSON file does not contain a list at the root level''], 1)"
  using add_ids_to_pictos_non_list [OF assms] open_r_exists [OF assms(1)]
  by (simp add: main_with_def shape_error_def)

theorem shape_error_message_witness:
  "open_r (world_with cat_object_text) default_input_file = Inr cat_object_text \<and>
   json_load cat_object_lib cat_object_text = Inr cat_object \<and>
   (\<forall>xs. cat_object \<noteq> JList xs) \<and>
   add_ids_to_pictos cat_object_lib (world_with cat_object_text) default_input_file None =
     (world_with cat_object_text,
      Inl (ValueError ''The JSON file does not contain a list at the root level'')) \<and>
   main cat_object_lib (world_with cat_object_text) =
     (world_with cat_object_text,
      [''Error: The JSON file does not contain a list at the root level''], 1)"
  using shape_error_message [OF read_cat_object load_cat_object cat_object_no_list, of None]
    read_cat_object load_cat_object cat_object_no_list
  by (simp add: main_def)

text \<open>
  C6. When the input path does not exist, the driver prints one line, \<^verbatim>\<open>Error: \<close> followed
  by \<^verbatim>\<open>Input file '...' not found.\<close> with the path between the quotes, returns 1 and
  leaves the world as it was. This holds for every annotator the driver could be given, so
  the annotator is not called; \<open>main\<close> is the case of the fixed path.
\<close>

theorem missing_input_reported:
  assumes "\<not> os_path_exists w p"
  shows "main_with annotator p w =
           (w, [''Error: '' @ ''Input file '' @ quoted p @ '' not found.''], 1) \<and>
         (p = default_input_file \<longrightarrow>
            main lib w = (w, [''Error: Input file 'src/assets/pictos_list.json' not found.''], 1))"
  using assms
  by (auto simp: main_with_def main_def quoted_def apostrophe_def default_input_file_def)

theorem missing_input_reported_witness:
  "\<not> os_path_exists empty_world default_input_file \<and>
   main_with constant_annotator default_input_file empty_world =
     (empty_world, [''Error: Input file 'src/assets/pictos_list.json' not found.''], 1) \<and>
   main cat_dog_lib empty_world =
     (empty_world, [''Error: Input file 'src/assets/pictos_list.json' not found.''], 1)"
proof -
  have missing: "\<not> os_path_exists empty_world default_input_file"
    by (simp add: os_path_exists_def empty_world_def)
  from missing_input_reported [OF missing, of constant_annotator cat_dog_lib] missing
  show ?thesis
    by (simp add: quoted_def apostrophe_def default_input_file_def)
qed

section \<open>Exit status and element types\<close>

text \<open>The loop ends normally exactly on lists of dicts.\<close>

lemma annotate_Inr_iff: "(\<exists>out. annotate pictos = Inr out) \<longleftrightarrow> (\<forall>x\<in>set pictos. is_dict x)"
proof
  assume "\<exists>out. annotate pictos = Inr out"
  show "\<forall>x\<in>set pictos. is_dict x"
  proof (rule ccontr)
    assume "\<not> (\<forall>x\<in>set pictos. is_dict x)"
    then have "\<exists>x\<in>set pictos. \<not> is_dict x" by simp
    from annotate_non_dict [OF this] \<open>\<exists>out. annotate pictos = Inr out\<close>
    show False by auto
  qed
next
  assume "\<forall>x\<in>set pictos. is_dict x"
  from annotate_dicts [OF this] show "\<exists>out. annotate pictos = Inr out" by blast
qed

text \<open>The call returns a count exactly when every step of it goes through.\<close>

lemma add_ids_to_pictos_Inr_iff:
  "(\<exists>n. snd (add_ids_to_pictos lib w p oo) = Inr n) \<longleftrightarrow>
   (\<exists>body pictos. open_r w p = Inr body \<and> json_load lib body = Inr (JList pictos) \<and>
      (\<forall>x\<in>set pictos. is_dict x) \<and> write_error w (output_path p oo) = None \<and>
      (\<forall>out. annotate pictos = Inr out \<longrightarrow> snd (json_dump lib (JList out)) = None))"
  (is "?L \<longleftrightarrow> ?R")
proof
  assume ?L
  then obtain n where "add_ids_to_pictos lib w p oo = (fst (add_ids_to_pictos lib w p oo), Inr n)"
    by (metis prod.collapse)
  from add_ids_to_pictos_Inr [OF this] obtain body pictos pictos' where
    s: "open_r w p = Inr body" "json_load lib body = Inr (JList pictos)"
       "annotate pictos = Inr pictos'" "write_error w (output_path p oo) = None"
       "snd (json_dump lib (JList pictos')) = None"
    by blast
  from s(3) have "\<forall>x\<in>set pictos. is_dict x"
    using annotate_Inr_iff by blast
  with s show ?R by auto
next
  assume ?R
  then obtain body pictos where
    s: "open_r w p = Inr body" "json_load lib body = Inr (JList pictos)"
       "\<forall>x\<in>set pictos. is_dict x" "write_error w (output_path p oo) = None"
       "\<forall>out. annotate pictos = Inr out \<longrightarrow> snd (json_dump lib (JList out)) = None"
    by blast
  from s(3) obtain out where out: "annotate pictos = Inr out"
    using annotate_Inr_iff by blast
  with s(5) have "snd (json_dump lib (JList out)) = None" by blast
  with out s(4) show ?L
    by (simp add: add_ids_to_pictos_list [OF s(1,2)] open_w_def)
qed

text \<open>The driver of the source, in terms of what the call raises or returns.\<close>

lemma main_result:
  "main lib w =
     (if \<not> os_path_exists w default_input_file then
        (w, [''Error: '' @ ''Input file '' @ quoted default_input_file @ '' not found.''], 1)
      else
        (case snd (add_ids_to_pictos lib w default_input_file None) of
           Inr count \<Rightarrow>
             (fst (add_ids_to_pictos lib w default_input_file None),
              [''Successfully added IDs to '' @ string_of_nat count @ '' pictos in ''
                 @ quoted default_input_file @ ''.''], 0)
         | Inl e \<Rightarrow>
             (fst (add_ids_to_pictos lib w default_input_file None), [''Error: '' @ str e], 1)))"
  by (simp add: main_def main_with_def split: prod.splits sum.splits)

text \<open>
  C7. The driver returns 0 exactly when the file exists, is read, parses to a list, every
  element of the list is a dict, the file can be opened for writing and the serialisation
  raises nothing. In every other case it returns 1 and prints one line that starts with
  \<^verbatim>\<open>Error: \<close>; when the file exists that line carries the text of the exception the
  call raised.
\<close>

theorem exit_status:
  "(snd (snd (main lib w)) = 0 \<longleftrightarrow>
      (\<exists>body pictos. os_path_exists w default_input_file \<and>
         open_r w default_input_file = Inr body \<and> json_load lib body = Inr (JList pictos) \<and>
         (\<forall>x\<in>set pictos. is_dict x) \<and> write_error w default_input_file = None \<and>
         (\<forall>out. annotate pictos = Inr out \<longrightarrow> snd (json_dump lib (JList out)) = None))) \<and>
   (snd (snd (main lib w)) \<noteq> 0 \<longrightarrow>
      snd (snd (main lib w)) = 1 \<and>
      (\<exists>msg. fst (snd (main lib w)) = [''Error: '' @ msg]) \<and>
      (os_path_exists w default_input_file \<longrightarrow>
         (\<exists>e. snd (add_ids_to_pictos lib w default_input_file None) = Inl e \<and>
              fst (snd (main lib w)) = [''Error: '' @ str e])))"
proof (intro conjI)
  have "snd (snd (main lib w)) = 0 \<longleftrightarrow>
      os_path_exists w default_input_file \<and>
      (\<exists>n. snd (add_ids_to_pictos lib w default_input_file None) = Inr n)"
    by (simp add: main_result split: sum.splits)
  then show "snd (snd (main lib w)) = 0 \<longleftrightarrow>
      (\<exists>body pictos. os_path_exists w default_input_file \<and>
         open_r w default_input_file = Inr body \<and> json_load lib body = Inr (JList pictos) \<and>
         (\<forall>x\<in>set pictos. is_dict x) \<and> write_error w default_input_file = None \<and>
         (\<forall>out. annotate pictos = Inr out \<longrightarrow> snd (json_dump lib (JList out)) = None))"
    by (simp add: add_ids_to_pictos_Inr_iff output_path_def)
next
  show "snd (snd (main lib w)) \<noteq> 0 \<longrightarrow>
      snd (snd (main lib w)) = 1 \<and>
      (\<exists>msg. fst (snd (main lib w)) = [''Error: '' @ msg]) \<and>
      (os_path_exists w default_input_file \<longrightarrow>
         (\<exists>e. snd (add_ids_to_pictos lib w default_input_file None) = Inl e \<and>
              fst (snd (main lib w)) = [''Error: '' @ str e]))"
    by (simp add: main_result split: sum.splits)
qed


text \<open>Runs of the examples, one for each way the chain can end.\<close>

lemma string_of_nat_2: "string_of_nat 2 = ''2''"
  by (simp add: string_of_nat.simps [of 2])

lemma exists_world_with: "os_path_exists (world_with body) default_input_file"
  by (simp add: os_path_exists_def world_with_def)

lemma read_cat_seven: "open_r (world_with cat_seven_text) default_input_file = Inr cat_seven_text"
  by (simp add: open_r_def world_with_def)

lemma load_cat_seven: "json_load cat_seven_lib cat_seven_text = Inr (JList cat_seven)"
  by (simp add: cat_seven_lib_def table_lib_def)

lemma annotate_cat_seven: "annotate cat_seven = Inl (no_item_assignment ''int'')"
  by (simp add: annotate_def cat_seven_def)

lemma annotate_cat_dog: "annotate cat_dog = Inr cat_dog_ids"
  by (simp add: annotate_def cat_dog_def cat_dog_ids_def)

lemma dump_cat_dog_ids: "json_dump cat_dog_lib (JList cat_dog_ids) = (cat_dog_ids_text, None)"
  by (simp add: cat_dog_lib_def table_lib_def cat_dog_def cat_dog_ids_def)

lemma run_cat_seven:
  "add_ids_to_pictos cat_seven_lib (world_with cat_seven_text) default_input_file None =
     (world_with cat_seven_text, Inl (no_item_assignment ''int''))"
  by (simp add: add_ids_to_pictos_list [OF read_cat_seven load_cat_seven] annotate_cat_seven)

lemma run_garbled:
  "add_ids_to_pictos cat_dog_lib (world_with garbled_text) default_input_file None =
     (world_with garbled_text, Inl (DecodeError ''Expecting value: line 1 column 1 (char 0)''))"
  by (simp add: add_ids_to_pictos_def open_r_def world_with_def cat_dog_lib_def table_lib_def
      garbled_text_def cat_dog_text_def cat_dog_ids_text_def empty_text_def)

lemma read_read_only: "open_r read_only_world default_input_file = Inr cat_dog_text"
  by (simp add: open_r_def read_only_world_def)

lemma run_read_only:
  "add_ids_to_pictos cat_dog_lib read_only_world default_input_file None =
     (read_only_world, Inl (OSError (''[Errno 13] Permission denied: '' @ quoted default_input_file)))"
  by (subst add_ids_to_pictos_list [OF read_read_only load_cat_dog])
    (simp add: annotate_cat_dog open_w_def output_path_def read_only_world_def)

text \<open>
  The instances: a run that succeeds, and one run for each failure: a missing file, a text
  that does not parse, a root that is not a list, an element that is not a dict, a file
  that cannot be written.
\<close>

theorem exit_status_witness:
  "main cat_dog_lib (world_with cat_dog_text) =
     (world_with cat_dog_ids_text,
      [''Successfully added IDs to 2 pictos in 'src/assets/pictos_list.json'.''], 0) \<and>
   main cat_dog_lib empty_world =
     (empty_world, [''Error: Input file 'src/assets/pictos_list.json' not found.''], 1) \<and>
   main cat_dog_lib (world_with garbled_text) =
     (world_with garbled_text, [''Error: Expecting value: line 1 column 1 (char 0)''], 1) \<and>
   main cat_object_lib (world_with cat_object_text) =
     (world_with cat_object_text,
      [''Error: The JSON file does not contain a list at the root level''], 1) \<and>
   main cat_seven_lib (world_with cat_seven_text) =
     (world_with cat_seven_text,
      [''Error: 'int' object does not support item assignment''], 1) \<and>
   main cat_dog_lib read_only_world =
     (read_only_world,
      [''Error: [Errno 13] Permission denied: '' @ quoted default_input_file], 1)"
proof -
  have "\<exists>body pictos. os_path_exists (world_with cat_dog_text) default_input_file \<and>
         open_r (world_with cat_dog_text) default_input_file = Inr body \<and>
         json_load cat_dog_lib body = Inr (JList pictos) \<and>
         (\<forall>x\<in>set pictos. is_dict x) \<and>
         write_error (world_with cat_dog_text) default_input_file = None \<and>
         (\<forall>out. annotate pictos = Inr out \<longrightarrow> snd (json_dump cat_dog_lib (JList out)) = None)"
  proof (intro exI conjI)
    show "os_path_exists (world_with cat_dog_text) default_input_file"
      by (rule exists_world_with)
    show "open_r (world_with cat_dog_text) default_input_file = Inr cat_dog_text"
      by (rule read_cat_dog)
    show "json_load cat_dog_lib cat_dog_text = Inr (JList cat_dog)"
      by (rule load_cat_dog)
    show "\<forall>x\<in>set cat_dog. is_dict x"
      by (simp add: cat_dog_def)
    show "write_error (world_with cat_dog_text) default_input_file = None"
      by (simp add: world_with_def)
    show "\<forall>out. annotate cat_dog = Inr out \<longrightarrow> snd (json_dump cat_dog_lib (JList out)) = None"
      by (simp add: annotate_cat_dog dump_cat_dog_ids)
  qed
  with exit_status [of cat_dog_lib "world_with cat_dog_text"]
  have zero: "snd (snd (main cat_dog_lib (world_with cat_dog_text))) = 0"
    by blast
  have ok: "main cat_dog_lib (world_with cat_dog_text) =
     (world_with cat_dog_ids_text,
      [''Successfully added IDs to 2 pictos in 'src/assets/pictos_list.json'.''], 0)"
    using zero
    by (simp add: main_result exists_world_with run_cat_dog string_of_nat_2)
      (simp_all add: quoted_def apostrophe_def default_input_file_def)
  have seven: "main cat_seven_lib (world_with cat_seven_text) =
     (world_with cat_seven_text,
      [''Error: 'int' object does not support item assignment''], 1)"
    using exit_status [of cat_seven_lib "world_with cat_seven_text"]
    by (simp add: main_result exists_world_with run_cat_seven no_item_assignment_def apostrophe_def)
  have missing: "main cat_dog_lib empty_world =
     (empty_world, [''Error: Input file 'src/assets/pictos_list.json' not found.''], 1)"
    by (simp add: main_result os_path_exists_def empty_world_def)
      (simp_all add: quoted_def apostrophe_def default_input_file_def)
  have garbled: "main cat_dog_lib (world_with garbled_text) =
     (world_with garbled_text, [''Error: Expecting value: line 1 column 1 (char 0)''], 1)"
    by (simp add: main_result exists_world_with run_garbled)
  have shape: "main cat_object_lib (world_with cat_object_text) =
     (world_with cat_object_text,
      [''Error: The JSON file does not contain a list at the root level''], 1)"
    by (simp add: main_cat_object shape_error_def)
  have denied: "main cat_dog_lib read_only_world =
     (read_only_world,
      [''Error: [Errno 13] Permission denied: '' @ quoted default_input_file], 1)"
    by (simp add: main_result open_r_exists [OF read_read_only] run_read_only)
  from ok seven missing garbled shape denied show ?thesis by simp
qed

text \<open>
  C8. When the list read from the input file has an element that is not a dict, the loop
  raises a \<open>TypeError\<close>, the call raises the same error and leaves the world as it found
  it, so nothing is written. When every element is a dict the loop raises nothing.
\<close>

theorem non_mapping_element:
  assumes "open_r w p = Inr text" "json_load lib text = Inr (JList pictos)"
  shows "((\<exists>x\<in>set pictos. \<not> is_dict x) \<longrightarrow>
            (\<exists>m. annotate pictos = Inl (TypeError m) \<and>
                 add_ids_to_pictos lib w p oo = (w, Inl (TypeError m)))) \<and>
         ((\<forall>x\<in>set pictos. is_dict x) \<longrightarrow> (\<exists>out. annotate pictos = Inr out))"
proof (intro conjI impI)
  assume "\<exists>x\<in>set pictos. \<not> is_dict x"
  from annotate_non_dict [OF this] obtain m where m: "annotate pictos = Inl (TypeError m)"
    by blast
  then have "add_ids_to_pictos lib w p oo = (w, Inl (TypeError m))"
    by (simp add: add_ids_to_pictos_list [OF assms])
  with m show "\<exists>m. annotate pictos = Inl (TypeError m) \<and>
                 add_ids_to_pictos lib w p oo = (w, Inl (TypeError m))"
    by blast
next
  assume "\<forall>x\<in>set pictos. is_dict x"
  then show "\<exists>out. annotate pictos = Inr out"
    using annotate_Inr_iff by blast
qed

theorem non_mapping_element_witness:
  "list_ex (\<lambda>x. \<not> is_dict x) cat_seven \<and>
   annotate cat_seven = Inl (no_item_assignment ''int'') \<and>
   add_ids_to_pictos cat_seven_lib (world_with cat_seven_text) default_input_file None =
     (world_with cat_seven_text, Inl (no_item_assignment ''int'')) \<and>
   list_all is_dict cat_dog \<and> annotate cat_dog = Inr cat_dog_ids"
proof -
  have bad: "\<exists>x\<in>set cat_seven. \<not> is_dict x"
    by (simp add: cat_seven_def)
  with non_mapping_element [OF read_cat_seven load_cat_seven, of None] obtain m where
    "annotate cat_seven = Inl (TypeError m)"
    "add_ids_to_pictos cat_seven_lib (world_with cat_seven_text) default_input_file None =
       (world_with cat_seven_text, Inl (TypeError m))"
    by blast
  then have seven: "add_ids_to_pictos cat_seven_lib (world_with cat_seven_text) default_input_file None =
       (world_with cat_seven_text, Inl (no_item_assignment ''int''))"
    by (simp add: annotate_cat_seven)
  have good: "\<forall>x\<in>set cat_dog. is_dict x"
    by (simp add: cat_dog_def)
  with non_mapping_element [OF read_cat_dog load_cat_dog] obtain out where
    "annotate cat_dog = Inr out"
    by blast
  then have "annotate cat_dog = Inr cat_dog_ids"
    by (simp add: annotate_cat_dog)
  with bad good seven show ?thesis
    by (simp add: annotate_cat_seven list_all_iff list_ex_iff)
qed

section \<open>Running twice, and running elsewhere\<close>

lemma open_r_Inr: "open_r w p = Inr body \<Longrightarrow> read_error w p = None \<and> files w p = Some body"
  by (auto simp: open_r_def split: option.splits)

text \<open>A call whose every step goes through: what it writes and what it returns.\<close>

lemma add_ids_to_pictos_ok:
  assumes "open_r w p = Inr body" "json_load lib body = Inr (JList pictos)"
    "annotate pictos = Inr once" "write_error w (output_path p oo) = None"
    "json_dump lib (JList once) = (out, None)"
  shows "add_ids_to_pictos lib w p oo =
           (w\<lparr>files := (files w)(output_path p oo \<mapsto> out)\<rparr>, Inr (length pictos))"
  using assms(3-5) annotate_length [OF assms(3)]
  by (simp add: add_ids_to_pictos_list [OF assms(1,2)] open_w_def)

text \<open>The loop leaves its own result as it is.\<close>

lemma annotate_twice:
  assumes "\<forall>x\<in>set pictos. is_dict x" "annotate pictos = Inr once"
  shows "annotate once = Inr once"
proof -
  from annotate_dicts [OF assms(1)] assms(2) have
    len: "length once = length pictos"
    and nth: "\<forall>i<length pictos. \<exists>d. pictos ! i = JDict d \<and>
        once ! i = JDict (dict_setitem d ''id'' (JInt (int i + 1)))"
    by auto
  have dicts: "\<forall>x\<in>set once. is_dict x"
  proof
    fix x assume "x \<in> set once"
    then obtain i where "i < length once" "once ! i = x"
      by (auto simp: in_set_conv_nth)
    with len nth show "is_dict x" by auto
  qed
  from annotate_dicts [OF dicts] obtain again where
    again: "annotate once = Inr again" "length again = length once"
    and nth2: "\<forall>i<length once. \<exists>d. once ! i = JDict d \<and>
        again ! i = JDict (dict_setitem d ''id'' (JInt (int i + 1)))"
    by blast
  have "again = once"
  proof (rule nth_equalityI)
    show "length again = length once" by (rule again(2))
  next
    fix i assume "i < length again"
    then have i: "i < length pictos" using again(2) len by simp
    with nth obtain d where d: "once ! i = JDict (dict_setitem d ''id'' (JInt (int i + 1)))"
      by blast
    from i len nth2 obtain d' where d': "once ! i = JDict d'"
      "again ! i = JDict (dict_setitem d' ''id'' (JInt (int i + 1)))"
      by auto
    from d d'(1) have "d' = dict_setitem d ''id'' (JInt (int i + 1))" by simp
    with d d'(2) show "again ! i = once ! i"
      by (simp add: dict_setitem_twice)
  qed
  with again(1) show ?thesis by simp
qed

text \<open>
  C9. On a list of dicts, the loop applied to its own result gives that result again. For
  files: when a run on a file succeeds and the library reads back the document it wrote,
  a second run on the file succeeds with the same count and leaves the world, the file
  included, as the first run left it.
\<close>

theorem annotate_idempotent:
  assumes "\<forall>x\<in>set pictos. is_dict x"
  shows "\<exists>once. annotate pictos = Inr once \<and> annotate once = Inr once \<and>
     (\<forall>lib w p body out.
        open_r w p = Inr body \<and> json_load lib body = Inr (JList pictos) \<and>
        write_error w p = None \<and> json_dump lib (JList once) = (out, None) \<and>
        json_load lib out = Inr (JList once)
        \<longrightarrow> (\<exists>w1. add_ids_to_pictos lib w p None = (w1, Inr (length pictos)) \<and>
                  files w1 p = Some out \<and>
                  add_ids_to_pictos lib w1 p None = (w1, Inr (length pictos))))"
proof -
  from annotate_dicts [OF assms] obtain once where
    once: "annotate pictos = Inr once" and len: "length once = length pictos"
    by blast
  have again: "annotate once = Inr once"
    by (rule annotate_twice [OF assms once])
  have "\<exists>w1. add_ids_to_pictos lib w p None = (w1, Inr (length pictos)) \<and>
           files w1 p = Some out \<and>
           add_ids_to_pictos lib w1 p None = (w1, Inr (length pictos))"
    if h: "open_r w p = Inr body" "json_load lib body = Inr (JList pictos)"
      "write_error w p = None" "json_dump lib (JList once) = (out, None)"
      "json_load lib out = Inr (JList once)"
    for lib w p body out
  proof -
    let ?w1 = "w\<lparr>files := (files w)(p \<mapsto> out)\<rparr>"
    from h(3) have wr: "write_error w (output_path p None) = None"
      by (simp add: output_path_def)
    have first: "add_ids_to_pictos lib w p None = (?w1, Inr (length pictos))"
      using add_ids_to_pictos_ok [OF h(1,2) once wr h(4)] by (simp add: output_path_def)
    from open_r_Inr [OF h(1)] have r1: "open_r ?w1 p = Inr out"
      by (simp add: open_r_def)
    from h(3) have wr1: "write_error ?w1 (output_path p None) = None"
      by (simp add: output_path_def)
    have second: "add_ids_to_pictos lib ?w1 p None = (?w1, Inr (length pictos))"
      using add_ids_to_pictos_ok [OF r1 h(5) again wr1 h(4)] len
      by (simp add: output_path_def)
    from first second show ?thesis by simp
  qed
  with once again show ?thesis by blast
qed

theorem annotate_idempotent_witness:
  "list_all is_dict cat_dog \<and> annotate cat_dog = Inr cat_dog_ids \<and>
   annotate cat_dog_ids = Inr cat_dog_ids \<and>
   add_ids_to_pictos cat_dog_lib (world_with cat_dog_text) default_input_file None =
     (world_with cat_dog_ids_text, Inr 2) \<and>
   add_ids_to_pictos cat_dog_lib (world_with cat_dog_ids_text) default_input_file None =
     (world_with cat_dog_ids_text, Inr 2)"
proof -
  have dicts: "\<forall>x\<in>set cat_dog. is_dict x"
    by (simp add: cat_dog_def)
  from annotate_idempotent [OF dicts] obtain once where
    once: "annotate cat_dog = Inr once" "annotate once = Inr once"
    and files: "\<forall>lib w p body out.
        open_r w p = Inr body \<and> json_load lib body = Inr (JList cat_dog) \<and>
        write_error w p = None \<and> json_dump lib (JList once) = (out, None) \<and>
        json_load lib out = Inr (JList once)
        \<longrightarrow> (\<exists>w1. add_ids_to_pictos lib w p None = (w1, Inr (length cat_dog)) \<and>
                  files w1 p = Some out \<and>
                  add_ids_to_pictos lib w1 p None = (w1, Inr (length cat_dog)))"
    by blast
  from once(1) have eq: "once = cat_dog_ids"
    by (simp add: annotate_cat_dog)
  have load2: "json_load cat_dog_lib cat_dog_ids_text = Inr (JList cat_dog_ids)"
    by (simp add: cat_dog_lib_def table_lib_def cat_dog_text_def cat_dog_ids_text_def)
  have "write_error (world_with cat_dog_text) default_input_file = None"
    by (simp add: world_with_def)
  with files read_cat_dog load_cat_dog dump_cat_dog_ids load2 eq obtain w1 where
    w1: "add_ids_to_pictos cat_dog_lib (world_with cat_dog_text) default_input_file None =
          (w1, Inr (length cat_dog))"
        "add_ids_to_pictos cat_dog_lib w1 default_input_file None = (w1, Inr (length cat_dog))"
    by blast
  from w1(1) have "w1 = world_with cat_dog_ids_text"
    by (simp add: run_cat_dog)
  with w1 once eq dicts show ?thesis
    by (simp add: list_all_iff cat_dog_def)
qed


text \<open>The outcome of the call from the parsed document and the write permission alone.\<close>

lemma add_ids_to_pictos_outcome:
  assumes "open_r w p = Inr body"
  shows "snd (add_ids_to_pictos lib w p oo) =
     (case json_load lib body of
        Inl e \<Rightarrow> Inl e
      | Inr (JList pictos) \<Rightarrow>
          (case annotate pictos of
             Inl e \<Rightarrow> Inl e
           | Inr pictos' \<Rightarrow>
               (case write_error w (output_path p oo) of
                  Some m \<Rightarrow> Inl (OSError m)
                | None \<Rightarrow>
                    (case snd (json_dump lib (JList pictos')) of
                       Some e \<Rightarrow> Inl e
                     | None \<Rightarrow> Inr (length pictos'))))
      | Inr _ \<Rightarrow> Inl shape_error)"
  using assms
  by (auto simp: add_ids_to_pictos_def output_path_def open_w_def Let_def
      split: sum.splits option.splits prod.splits json.splits)

text \<open>
  C10. Two calls whose input files parse to the same document, in any two worlds and on
  any paths: if opening the destination fails or succeeds alike, they raise the same error
  or return the same count; and whenever both return, the counts are equal and the two
  destinations hold the same text.
\<close>

theorem annotate_deterministic:
  assumes "open_r w1 p1 = Inr body1" "open_r w2 p2 = Inr body2"
    "json_load lib body1 = json_load lib body2"
  shows "(write_error w1 (output_path p1 oa) = write_error w2 (output_path p2 ob) \<longrightarrow>
            snd (add_ids_to_pictos lib w1 p1 oa) = snd (add_ids_to_pictos lib w2 p2 ob)) \<and>
         (\<forall>w1' n1 w2' n2.
            add_ids_to_pictos lib w1 p1 oa = (w1', Inr n1) \<and>
            add_ids_to_pictos lib w2 p2 ob = (w2', Inr n2) \<longrightarrow>
            n1 = n2 \<and> files w1' (output_path p1 oa) = files w2' (output_path p2 ob))"
proof (intro conjI impI allI)
  assume "write_error w1 (output_path p1 oa) = write_error w2 (output_path p2 ob)"
  then show "snd (add_ids_to_pictos lib w1 p1 oa) = snd (add_ids_to_pictos lib w2 p2 ob)"
    by (simp add: add_ids_to_pictos_outcome [OF assms(1)]
        add_ids_to_pictos_outcome [OF assms(2)] assms(3)
        split: sum.splits json.splits)
next
  fix w1' n1 w2' n2
  assume both: "add_ids_to_pictos lib w1 p1 oa = (w1', Inr n1) \<and>
            add_ids_to_pictos lib w2 p2 ob = (w2', Inr n2)"
  from add_ids_to_pictos_Inr [OF both [THEN conjunct1]] assms(1) obtain pictos a where
    a: "json_load lib body1 = Inr (JList pictos)" "annotate pictos = Inr a" "n1 = length a"
       "w1' = w1\<lparr>files := (files w1)(output_path p1 oa \<mapsto> fst (json_dump lib (JList a)))\<rparr>"
    by auto
  from add_ids_to_pictos_Inr [OF both [THEN conjunct2]] assms(2) obtain pictos2 b where
    b: "json_load lib body2 = Inr (JList pictos2)" "annotate pictos2 = Inr b" "n2 = length b"
       "w2' = w2\<lparr>files := (files w2)(output_path p2 ob \<mapsto> fst (json_dump lib (JList b)))\<rparr>"
    by auto
  from a(1) b(1) assms(3) have "pictos2 = pictos" by simp
  with a(2) b(2) have "b = a" by simp
  with a b show "n1 = n2" by simp
  from \<open>b = a\<close> a b show "files w1' (output_path p1 oa) = files w2' (output_path p2 ob)" by simp
qed

lemma run_other_world:
  "add_ids_to_pictos cat_dog_lib other_world ''a.json'' (Some ''b.json'') =
     (other_world\<lparr>files := (files other_world)(''b.json'' \<mapsto> cat_dog_ids_text)\<rparr>, Inr 2)"
proof -
  have r: "open_r other_world ''a.json'' = Inr cat_dog_text"
    by (simp add: open_r_def other_world_def)
  have w: "write_error other_world (output_path ''a.json'' (Some ''b.json'')) = None"
    by (simp add: other_world_def)
  from add_ids_to_pictos_ok [OF r load_cat_dog annotate_cat_dog w dump_cat_dog_ids]
  show ?thesis by (simp add: output_path_def cat_dog_def)
qed

theorem annotate_deterministic_witness:
  "open_r (world_with cat_dog_text) default_input_file = Inr cat_dog_text \<and>
   open_r other_world ''a.json'' = Inr cat_dog_text \<and>
   add_ids_to_pictos cat_dog_lib (world_with cat_dog_text) default_input_file None =
     (world_with cat_dog_ids_text, Inr 2) \<and>
   add_ids_to_pictos cat_dog_lib other_world ''a.json'' (Some ''b.json'') =
     (other_world\<lparr>files := (files other_world)(''b.json'' \<mapsto> cat_dog_ids_text)\<rparr>, Inr 2) \<and>
   files (world_with cat_dog_ids_text) default_input_file = Some cat_dog_ids_text \<and>
   files (other_world\<lparr>files := (files other_world)(''b.json'' \<mapsto> cat_dog_ids_text)\<rparr>) ''b.json'' =
     files (world_with cat_dog_ids_text) default_input_file"
proof -
  have r: "open_r other_world ''a.json'' = Inr cat_dog_text"
    by (simp add: open_r_def other_world_def)
  have "write_error (world_with cat_dog_text) (output_path default_input_file None) =
        write_error other_world (output_path ''a.json'' (Some ''b.json''))"
    by (simp add: world_with_def other_world_def)
  with annotate_deterministic [where lib = cat_dog_lib and oa = None and ob = "Some ''b.json''",
      OF read_cat_dog r refl]
    run_cat_dog run_other_world
  have "files (world_with cat_dog_ids_text) (output_path default_input_file None) =
        files (other_world\<lparr>files := (files other_world)(''b.json'' \<mapsto> cat_dog_ids_text)\<rparr>)
          (output_path ''a.json'' (Some ''b.json''))"
    by blast
  then have same: "files (other_world\<lparr>files := (files other_world)(''b.json'' \<mapsto> cat_dog_ids_text)\<rparr>)
      ''b.json'' = files (world_with cat_dog_ids_text) default_input_file"
    by (simp add: output_path_def)
  have "files (world_with cat_dog_ids_text) default_input_file = Some cat_dog_ids_text"
    by (simp add: world_with_def)
  with same r read_cat_dog run_cat_dog run_other_world show ?thesis by simp
qed

end
